theory Spec2Isabelle
  imports Main "HOL-Library.Word"
begin

section \<open>The on-chain store: contracts/WhisperVault.sol\<close>

text \<open>
  The contract keeps one private mapping \<open>_userMessages\<close> from addresses to arrays of
  \<open>Message\<close> structs. A call is a function from the call environment (\<open>msg.sender\<close>,
  \<open>address(this)\<close>, \<open>block.timestamp\<close>) and the storage to either a revert or the new
  storage with the events emitted. Solidity 0.8 checks arithmetic: a subtraction below
  zero is \<open>Panic(0x11)\<close>. Call value and gas are outside the model. An array length is a
  \<open>uint256\<close> in storage; here an array is a list and its length a natural number.
\<close>

type_synonym address = "160 word"
type_synonym uint256 = "256 word"
type_synonym bytes = "8 word list"

record Message =
  label :: string
  sender :: address
  encryptedContent :: bytes
  timestamp :: uint256
  isResponse :: bool

record vault =
  userMessages :: "address \<Rightarrow> Message list"

datatype event =
    MessageStored address uint256 uint256 bool uint256
  | MessagesCleared address
  | DecryptionRequested address uint256

datatype revert =
    Require string
  | Panic nat

record call_env =
  msg_sender :: address
  address_this :: address
  block_timestamp :: uint256

type_synonym 'a tx_result = "revert + 'a"

definition deployed :: vault where
  "deployed = \<lparr>userMessages = (\<lambda>_. [])\<rparr>"

definition push :: "vault \<Rightarrow> address \<Rightarrow> Message \<Rightarrow> vault" where
  "push s a m = s\<lparr>userMessages := (userMessages s)(a := userMessages s a @ [m])\<rparr>"

definition getMessageCount :: "vault \<Rightarrow> address \<Rightarrow> nat" where
  "getMessageCount s user = length (userMessages s user)"

definition getMessageMetadata ::
  "vault \<Rightarrow> address \<Rightarrow> uint256 \<Rightarrow> (address \<times> uint256 \<times> bool) tx_result" where
  "getMessageMetadata s user index =
     (if \<not> unat index < length (userMessages s user) then Inl (Require ''Vault: Index error'')
      else let msg' = userMessages s user ! unat index
           in Inr (sender msg', timestamp msg', isResponse msg'))"

definition getEncryptedContent :: "vault \<Rightarrow> address \<Rightarrow> uint256 \<Rightarrow> bytes tx_result" where
  "getEncryptedContent s user index =
     (if \<not> unat index < length (userMessages s user) then Inl (Require ''Vault: Index error'')
      else Inr (encryptedContent (userMessages s user ! unat index)))"

definition getMessage ::
  "vault \<Rightarrow> address \<Rightarrow> uint256 \<Rightarrow> (address \<times> bytes \<times> uint256 \<times> bool) tx_result" where
  "getMessage s user index =
     (if \<not> unat index < length (userMessages s user) then Inl (Require ''Vault: Index error'')
      else let msg' = userMessages s user ! unat index
           in Inr (sender msg', encryptedContent msg', timestamp msg', isResponse msg'))"

definition getAllMessages :: "vault \<Rightarrow> address \<Rightarrow> Message list" where
  "getAllMessages s user = userMessages s user"

text \<open>
  \<open>storeMessage\<close> and \<open>storeResponse\<close> push onto the array of \<open>address(this)\<close> and then
  compute the event's index from the array of \<open>msg.sender\<close>, with a checked \<open>- 1\<close>.
\<close>

definition storeMessage :: "call_env \<Rightarrow> vault \<Rightarrow> bytes \<Rightarrow> (vault \<times> event list) tx_result" where
  "storeMessage env s content =
     (if \<not> length content > 0 then Inl (Require ''Empty message'')
      else if \<not> length content \<le> 16384 then Inl (Require ''Message too large'')
      else
        let s' = push s (address_this env)
                   \<lparr>label = '''', sender = msg_sender env, encryptedContent = content,
                    timestamp = block_timestamp env, isResponse = False\<rparr>;
            n = length (userMessages s' (msg_sender env))
        in if n < 1 then Inl (Panic 17)
           else Inr (s', [MessageStored (msg_sender env) (of_nat (n - 1))
                            (block_timestamp env) False (of_nat (length content))]))"

definition storeResponse :: "call_env \<Rightarrow> vault \<Rightarrow> bytes \<Rightarrow> (vault \<times> event list) tx_result" where
  "storeResponse env s content =
     (if \<not> length content > 0 then Inl (Require ''Empty message'')
      else if \<not> length content \<le> 16384 then Inl (Require ''Message too large'')
      else
        let s' = push s (address_this env)
                   \<lparr>label = '''', sender = address_this env, encryptedContent = content,
                    timestamp = block_timestamp env, isResponse = True\<rparr>;
            n = length (userMessages s' (msg_sender env))
        in if n < 1 then Inl (Panic 17)
           else Inr (s', [MessageStored (msg_sender env) (of_nat (n - 1))
                            (block_timestamp env) True (of_nat (length content))]))"

definition clearMessages :: "call_env \<Rightarrow> vault \<Rightarrow> (vault \<times> event list) tx_result" where
  "clearMessages env s =
     Inr (s\<lparr>userMessages := (userMessages s)(msg_sender env := [])\<rparr>,
          [MessagesCleared (msg_sender env)])"

definition requestDecryption :: "call_env \<Rightarrow> vault \<Rightarrow> (vault \<times> event list) tx_result" where
  "requestDecryption env s = Inr (s, [DecryptionRequested (msg_sender env) (block_timestamp env)])"

subsection \<open>Transactions\<close>

text \<open>
  The state-changing entry points as one datatype, and a run of transactions against a
  contract deployed at \<open>this\<close>: a transaction that reverts leaves the storage as it was.
\<close>

datatype call =
    StoreMessage bytes
  | StoreResponse bytes
  | ClearMessages
  | RequestDecryption

fun exec :: "call_env \<Rightarrow> vault \<Rightarrow> call \<Rightarrow> (vault \<times> event list) tx_result" where
  "exec env s (StoreMessage content) = storeMessage env s content"
| "exec env s (StoreResponse content) = storeResponse env s content"
| "exec env s ClearMessages = clearMessages env s"
| "exec env s RequestDecryption = requestDecryption env s"

record tx =
  tx_from :: address
  tx_time :: uint256
  tx_call :: call

definition transact :: "address \<Rightarrow> vault \<Rightarrow> tx \<Rightarrow> vault" where
  "transact this s t =
     (case exec \<lparr>msg_sender = tx_from t, address_this = this, block_timestamp = tx_time t\<rparr>
             s (tx_call t) of
        Inl _ \<Rightarrow> s
      | Inr (s', _) \<Rightarrow> s')"

definition run :: "address \<Rightarrow> vault \<Rightarrow> tx list \<Rightarrow> vault" where
  "run this s ts = foldl (transact this) s ts"

section \<open>The contract adapter: frontend/hooks/useWhisperVault.ts\<close>

text \<open>
  The hook keeps three pieces of React state (\<open>messages\<close>, \<open>loading\<close>, \<open>error\<close>) and reads
  and writes the browser's \<open>localStorage\<close>. An \<open>async\<close> callback is a function from that
  state to the state it leaves behind, paired with the value it throws, if any. What the
  callback awaits from outside the file is an argument: the outcome of \<open>getContract()\<close>
  and of the calls on the \<open>Contract\<close> it returns, \<open>JSON.parse\<close>, \<open>Number\<close>, and
  \<open>decryptText\<close> of \<open>./useCrypto\<close>. A thrown value is an \<open>Error\<close> with its message or
  some other value.
\<close>

datatype thrown =
    Error string
  | NonError

type_synonym 'a outcome = "thrown + 'a"

text \<open>The interface \<open>Message\<close> of the hook; \<open>decryptedText\<close> is optional.\<close>

record ChatMessage =
  m_id :: nat
  m_sender :: string
  m_encryptedContent :: string
  m_timestamp :: int
  m_isResponse :: bool
  m_decryptedText :: "string option"

text \<open>One element of what \<open>contract.getAllMessages(address)\<close> resolves to.\<close>

record ChainTuple =
  c_label :: string
  c_sender :: string
  c_encryptedContent :: string
  c_timestamp :: nat
  c_isResponse :: bool

record Contract =
  call_getAllMessages :: "string \<Rightarrow> ChainTuple list outcome"
  call_requestDecryption :: "unit outcome"

record hook =
  messages :: "ChatMessage list"
  loading :: bool
  error :: "string option"
  localStorage :: "string \<rightharpoonup> string"

definition storage_key :: "string \<Rightarrow> string" where
  "storage_key address = ''whisperlink-'' @ address"

text \<open>\<open>localStorage.getItem\<close> followed by \<open>if (stored)\<close>: \<open>null\<close> and the empty string are falsy.\<close>

definition truthy_item :: "hook \<Rightarrow> string \<Rightarrow> string option" where
  "truthy_item h k = (case localStorage h k of None \<Rightarrow> None
                      | Some stored \<Rightarrow> if stored = [] then None else Some stored)"

fun str_includes :: "string \<Rightarrow> string \<Rightarrow> bool" where
  "str_includes [] t = (t = [])"
| "str_includes (c # s) t = (take (length t) (c # s) = t \<or> str_includes s t)"

definition error_message :: "thrown \<Rightarrow> string \<Rightarrow> string" where
  "error_message err fallback = (case err of Error m \<Rightarrow> m | NonError \<Rightarrow> fallback)"

definition to_chat_messages :: "(nat \<Rightarrow> int) \<Rightarrow> ChainTuple list \<Rightarrow> ChatMessage list" where
  "to_chat_messages Number allMessages =
     map (\<lambda>(msg, index).
            \<lparr>m_id = index, m_sender = c_sender msg, m_encryptedContent = c_encryptedContent msg,
             m_timestamp = Number (c_timestamp msg), m_isResponse = c_isResponse msg,
             m_decryptedText = None\<rparr>)
         (zip allMessages [0 ..< length allMessages])"

text \<open>Lines 133 to 144: no contract on this network, the list comes from local storage.\<close>

definition load_demo :: "(string \<Rightarrow> ChatMessage list outcome) \<Rightarrow> string \<Rightarrow> hook \<Rightarrow> hook" where
  "load_demo JSON_parse address h =
     (case truthy_item h (storage_key address) of
        None \<Rightarrow> h
      | Some stored \<Rightarrow>
          (case JSON_parse stored of
             Inr parsed \<Rightarrow> h\<lparr>messages := parsed\<rparr>
           | Inl parseErr \<Rightarrow>
               h\<lparr>messages := [],
                 localStorage := (localStorage h)(storage_key address := None)\<rparr>))"

text \<open>Lines 158 to 178: the \<open>catch\<close> of \<open>loadMessages\<close>.\<close>

definition load_fallback ::
  "(string \<Rightarrow> ChatMessage list outcome) \<Rightarrow> string \<Rightarrow> thrown \<Rightarrow> hook \<Rightarrow> hook" where
  "load_fallback JSON_parse address err h =
     (let errorMessage = error_message err ''Unknown error'';
          h1 = (if str_includes errorMessage ''missing revert data'' \<or>
                   str_includes errorMessage ''CALL_EXCEPTION''
                then h\<lparr>error := Some
                  ''Contract not available on this network. Please check your connection.''\<rparr>
                else h\<lparr>error := Some (''Failed to load messages: '' @ errorMessage)\<rparr>)
      in case truthy_item h1 (storage_key address) of
           None \<Rightarrow> h1
         | Some stored \<Rightarrow>
             (case JSON_parse stored of
                Inr parsed \<Rightarrow> h1\<lparr>messages := parsed\<rparr>
              | Inl parseErr \<Rightarrow> h1\<lparr>messages := []\<rparr>))"

definition loadMessages ::
  "(string \<Rightarrow> ChatMessage list outcome) \<Rightarrow> (nat \<Rightarrow> int) \<Rightarrow> Contract option outcome \<Rightarrow>
   string option \<Rightarrow> hook \<Rightarrow> hook \<times> thrown option" where
  "loadMessages JSON_parse Number getContract address h =
     (case address of
        None \<Rightarrow> (h, None)
      | Some a \<Rightarrow>
          let h0 = h\<lparr>loading := True, error := None\<rparr>;
              h1 = (case getContract of
                      Inl err \<Rightarrow> load_fallback JSON_parse a err h0
                    | Inr None \<Rightarrow> load_demo JSON_parse a h0
                    | Inr (Some contract) \<Rightarrow>
                        (case call_getAllMessages contract a of
                           Inl err \<Rightarrow> load_fallback JSON_parse a err h0
                         | Inr allMessages \<Rightarrow>
                             h0\<lparr>messages := to_chat_messages Number allMessages\<rparr>))
          in (h1\<lparr>loading := False\<rparr>, None))"

text \<open>
  Lines 288 to 299: the callback mapped over \<open>messages\<close>. Each call has its own
  \<open>try\<close>/\<open>catch\<close>, so the promise it returns always resolves and \<open>Promise.all\<close> keeps the
  order of the list.
\<close>

definition decrypt_one ::
  "(string \<Rightarrow> string \<Rightarrow> string outcome) \<Rightarrow> string \<Rightarrow> ChatMessage \<Rightarrow> ChatMessage" where
  "decrypt_one decryptText password msg =
     (case decryptText (m_encryptedContent msg) password of
        Inr decrypted \<Rightarrow> msg\<lparr>m_decryptedText := Some decrypted\<rparr>
      | Inl err \<Rightarrow> msg\<lparr>m_decryptedText := Some ''[Decryption failed]''\<rparr>)"

text \<open>
  The body of the outer \<open>try\<close> of \<open>decryptAllMessages\<close>: the list to set, or what is thrown.
  A failure of \<open>requestDecryption\<close> is caught on the spot; a failure of \<open>getContract\<close> is not.
\<close>

definition decrypt_body ::
  "(string \<Rightarrow> string \<Rightarrow> string outcome) \<Rightarrow> Contract option outcome \<Rightarrow> string \<Rightarrow>
   ChatMessage list \<Rightarrow> ChatMessage list outcome" where
  "decrypt_body decryptText getContract password msgs =
     (if length msgs = 0 then Inl (Error ''No messages to decrypt'')
      else case getContract of
             Inl err \<Rightarrow> Inl err
           | Inr None \<Rightarrow> Inr (map (decrypt_one decryptText password) msgs)
           | Inr (Some contract) \<Rightarrow>
               (case call_requestDecryption contract of
                  Inl contractErr \<Rightarrow> Inr (map (decrypt_one decryptText password) msgs)
                | Inr _ \<Rightarrow> Inr (map (decrypt_one decryptText password) msgs)))"

definition decryptAllMessages ::
  "(string \<Rightarrow> string \<Rightarrow> string outcome) \<Rightarrow> Contract option outcome \<Rightarrow> string \<Rightarrow>
   hook \<Rightarrow> hook \<times> thrown option" where
  "decryptAllMessages decryptText getContract password h =
     (let h0 = h\<lparr>loading := True, error := None\<rparr>
      in case decrypt_body decryptText getContract password (messages h) of
           Inr decryptedMessages \<Rightarrow>
             (h0\<lparr>messages := decryptedMessages, loading := False\<rparr>, None)
         | Inl err \<Rightarrow>
             (h0\<lparr>error := Some (error_message err ''Decryption failed''), loading := False\<rparr>,
              Some err))"

section \<open>The client codec: frontend/hooks/useCrypto.ts\<close>

text \<open>
  The hook imports \<open>encryptText\<close> and \<open>decryptText\<close> from \<open>./useCrypto\<close>. The key derivation
  and the authenticated cipher are the platform's (Web Crypto); they are the fields of a
  record, with the two fixed prefix lengths. The random salt and the random
  initialization vector of one encryption call are arguments.
\<close>

record 'k crypto =
  salt_length :: nat
  iv_length :: nat
  derive_key :: "string \<Rightarrow> string \<Rightarrow> 'k"
  seal :: "'k \<Rightarrow> string \<Rightarrow> string \<Rightarrow> string"
  unseal :: "'k \<Rightarrow> string \<Rightarrow> string \<Rightarrow> string option"

text \<open>
  Modelled from the spec: \<open>encryptText\<close> of frontend/hooks/useCrypto.ts, which is not among
  the source files. The key is derived from the password and the fresh salt; the plaintext
  is encrypted with the authenticated cipher under the fresh initialization vector; the
  output is salt, then initialization vector, then ciphertext.
\<close>

definition encryptText :: "'k crypto \<Rightarrow> string \<Rightarrow> string \<Rightarrow> string \<Rightarrow> string \<Rightarrow> string" where
  "encryptText c salt iv plaintext password =
     salt @ iv @ seal c (derive_key c password salt) iv plaintext"

text \<open>
  Modelled from the spec: \<open>decryptText\<close> of frontend/hooks/useCrypto.ts, which is not among
  the source files. The salt and the initialization vector are the two fixed-length
  prefixes of the payload and the ciphertext is the tail; the key is derived again from
  the embedded salt and the password; the cipher checks the authentication tag, and a
  wrong password or a corrupted payload is a failure.
\<close>

definition decryptText :: "'k crypto \<Rightarrow> string \<Rightarrow> string \<Rightarrow> string option" where
  "decryptText c payload password =
     (if length payload < salt_length c + iv_length c then None
      else
        let salt = take (salt_length c) payload;
            iv = take (iv_length c) (drop (salt_length c) payload);
            ciphertext = drop (salt_length c + iv_length c) payload
        in unseal c (derive_key c password salt) iv ciphertext)"

section \<open>Invariants and sample inputs\<close>

definition labels_blank :: "vault \<Rightarrow> bool" where
  "labels_blank s = (\<forall>a. \<forall>m \<in> set (userMessages s a). label m = '''')"

text \<open>
  The cases in which \<open>loadMessages\<close> reads the cached list: \<open>getContract\<close> throws, there is
  no contract, or \<open>getAllMessages\<close> throws.
\<close>

definition cache_is_read :: "Contract option outcome \<Rightarrow> string \<Rightarrow> bool" where
  "cache_is_read getContract a =
     (case getContract of
        Inl err \<Rightarrow> True
      | Inr None \<Rightarrow> True
      | Inr (Some contract) \<Rightarrow> isl (call_getAllMessages contract a))"




definition alice :: address where "alice = 0xA11CE"
definition bob :: address where "bob = 0xB0B"
definition vault_address :: address where "vault_address = 0xC0DE"

definition env_alice :: call_env where
  "env_alice = \<lparr>msg_sender = alice, address_this = vault_address, block_timestamp = 1700000000\<rparr>"

definition hello :: Message where
  "hello = \<lparr>label = '''', sender = alice, encryptedContent = [0x48, 0x69],
            timestamp = 1700000000, isResponse = False\<rparr>"

definition one_message :: vault where
  "one_message = push deployed alice hello"

definition two_users :: vault where
  "two_users =
     push one_message bob
       \<lparr>label = '''', sender = bob, encryptedContent = [0x59, 0x6F],
        timestamp = 1700000001, isResponse = False\<rparr>"

definition tx_alice_store :: tx where
  "tx_alice_store = \<lparr>tx_from = alice, tx_time = 1700000000, tx_call = StoreMessage [0x48, 0x69]\<rparr>"

definition tx_bob_response :: tx where
  "tx_bob_response = \<lparr>tx_from = bob, tx_time = 1700000001, tx_call = StoreResponse [0x59, 0x6F]\<rparr>"

definition tx_self_store :: tx where
  "tx_self_store = \<lparr>tx_from = vault_address, tx_time = 1700000002, tx_call = StoreMessage [0x21]\<rparr>"


text \<open>A parser that accepts the empty array only, and throws on everything else.\<close>

definition parse_empty_array :: "string \<Rightarrow> ChatMessage list outcome" where
  "parse_empty_array s = (if s = ''[]'' then Inr [] else Inl (Error ''SyntaxError''))"

text \<open>A decryptor that accepts a payload starting with the password, and throws otherwise.\<close>

definition prefix_decryptor :: "string \<Rightarrow> string \<Rightarrow> string outcome" where
  "prefix_decryptor payload password =
     (if take (length password) payload = password then Inr (drop (length password) payload)
      else Inl (Error ''OperationError''))"

definition sealed_ok :: ChatMessage where
  "sealed_ok = \<lparr>m_id = 0, m_sender = ''0xA11CE'', m_encryptedContent = ''pw:hello'',
                m_timestamp = 1700000000, m_isResponse = False, m_decryptedText = None\<rparr>"

definition sealed_bad :: ChatMessage where
  "sealed_bad = \<lparr>m_id = 1, m_sender = ''system'', m_encryptedContent = ''garbage'',
                 m_timestamp = 1700000001, m_isResponse = True, m_decryptedText = None\<rparr>"

definition chat_hook :: hook where
  "chat_hook = \<lparr>messages = [sealed_ok, sealed_bad], loading = False, error = None,
                localStorage = Map.empty\<rparr>"

definition cached_hook :: "string \<Rightarrow> hook" where
  "cached_hook stored =
     \<lparr>messages = [sealed_ok], loading = False, error = None,
      localStorage = [storage_key ''0xA11CE'' \<mapsto> stored]\<rparr>"

text \<open>A toy cipher: the ciphertext is the key, the initialization vector and the plaintext.\<close>

definition toy_crypto :: "string crypto" where
  "toy_crypto =
     \<lparr>salt_length = 2, iv_length = 3,
      derive_key = (\<lambda>password salt. password @ salt),
      seal = (\<lambda>key iv plaintext. key @ iv @ plaintext),
      unseal = (\<lambda>key iv ciphertext.
                  if take (length (key @ iv)) ciphertext = key @ iv
                  then Some (drop (length (key @ iv)) ciphertext) else None)\<rparr>"

section \<open>Properties of the on-chain store\<close>

lemma push_other: "a \<noteq> b \<Longrightarrow> userMessages (push s a m) b = userMessages s b"
  by (simp add: push_def)

lemma push_same: "userMessages (push s a m) a = userMessages s a @ [m]"
  by (simp add: push_def)

lemma users_differ:
  "alice \<noteq> bob" "alice \<noteq> vault_address" "bob \<noteq> vault_address"
  "bob \<noteq> alice" "vault_address \<noteq> alice" "vault_address \<noteq> bob"
  by (simp_all add: alice_def bob_def vault_address_def)

lemma store_success:
  assumes "storeMessage env s content = Inr (s', evs) \<or> storeResponse env s content = Inr (s', evs)"
  shows "\<exists>m. label m = '''' \<and> encryptedContent m = content \<and> s' = push s (address_this env) m"
proof -
  let ?u = "\<lparr>label = '''', sender = msg_sender env, encryptedContent = content,
             timestamp = block_timestamp env, isResponse = False\<rparr>"
  let ?r = "\<lparr>label = '''', sender = address_this env, encryptedContent = content,
             timestamp = block_timestamp env, isResponse = True\<rparr>"
  from assms have "s' = push s (address_this env) ?u \<or> s' = push s (address_this env) ?r"
    by (auto simp: storeMessage_def storeResponse_def Let_def split: if_splits)
  then show ?thesis
  proof
    assume "s' = push s (address_this env) ?u"
    then show ?thesis by (intro exI [of _ ?u]) simp
  next
    assume "s' = push s (address_this env) ?r"
    then show ?thesis by (intro exI [of _ ?r]) simp
  qed
qed

subsection \<open>Callers with an empty list\<close>

lemma exec_others_empty:
  assumes "a \<noteq> address_this env" and "userMessages s a = []" and "exec env s c = Inr (s', evs)"
  shows "userMessages s' a = []"
proof (cases c)
  case (StoreMessage content)
  with assms(3) store_success [of env s content s' evs] obtain m
    where "s' = push s (address_this env) m" by auto
  with assms(1,2) show ?thesis by (simp add: push_other)
next
  case (StoreResponse content)
  with assms(3) store_success [of env s content s' evs] obtain m
    where "s' = push s (address_this env) m" by auto
  with assms(1,2) show ?thesis by (simp add: push_other)
next
  case ClearMessages
  with assms(2,3) show ?thesis by (auto simp: clearMessages_def)
next
  case RequestDecryption
  with assms(2,3) show ?thesis by (auto simp: requestDecryption_def)
qed

lemma transact_others_empty:
  assumes "a \<noteq> this" and "userMessages s a = []"
  shows "userMessages (transact this s t) a = []"
proof -
  let ?env = "\<lparr>msg_sender = tx_from t, address_this = this, block_timestamp = tx_time t\<rparr>"
  show ?thesis
  proof (cases "exec ?env s (tx_call t)")
    case (Inl e)
    with assms(2) show ?thesis by (simp add: transact_def)
  next
    case (Inr r)
    obtain s' evs where r: "r = (s', evs)" by (cases r)
    from Inr r have "exec ?env s (tx_call t) = Inr (s', evs)" by simp
    with assms exec_others_empty [of a ?env s "tx_call t" s' evs]
    have "userMessages s' a = []" by simp
    with Inr r show ?thesis by (simp add: transact_def)
  qed
qed

lemma run_others_empty:
  "a \<noteq> this \<Longrightarrow> userMessages s a = [] \<Longrightarrow> userMessages (run this s ts) a = []"
  unfolding run_def
  by (induction ts arbitrary: s) (simp_all add: transact_others_empty)

text \<open>
  C2. For a caller other than the contract itself whose own list is empty, \<open>storeMessage\<close>
  and \<open>storeResponse\<close> revert on every payload; on a payload of 1 to 16384 bytes the revert
  is the arithmetic panic of \<open>length - 1\<close> at length 0. After any run of transactions on a
  fresh deployment the list of such a caller is empty, so this is every state it can meet.
\<close>

theorem store_reverts_for_external_caller:
  assumes "msg_sender env \<noteq> address_this env"
  shows "(userMessages s (msg_sender env) = [] \<longrightarrow>
            isl (storeMessage env s content) \<and> isl (storeResponse env s content) \<and>
            (1 \<le> length content \<and> length content \<le> 16384 \<longrightarrow>
               storeMessage env s content = Inl (Panic 17) \<and>
               storeResponse env s content = Inl (Panic 17))) \<and>
         userMessages (run (address_this env) deployed ts) (msg_sender env) = []"
proof -
  have "userMessages deployed (msg_sender env) = []" by (simp add: deployed_def)
  with assms have "userMessages (run (address_this env) deployed ts) (msg_sender env) = []"
    by (rule run_others_empty)
  moreover have "userMessages s (msg_sender env) = [] \<longrightarrow>
            isl (storeMessage env s content) \<and> isl (storeResponse env s content) \<and>
            (1 \<le> length content \<and> length content \<le> 16384 \<longrightarrow>
               storeMessage env s content = Inl (Panic 17) \<and>
               storeResponse env s content = Inl (Panic 17))"
    using assms by (auto simp: storeMessage_def storeResponse_def Let_def push_other)
  ultimately show ?thesis by blast
qed

theorem store_reverts_for_external_caller_witness:
  "msg_sender env_alice \<noteq> address_this env_alice \<and>
   userMessages deployed (msg_sender env_alice) = [] \<and>
   storeMessage env_alice deployed [0x48, 0x69] = Inl (Panic 17) \<and>
   storeResponse env_alice deployed [0x48, 0x69] = Inl (Panic 17) \<and>
   userMessages (run vault_address deployed [tx_bob_response, tx_alice_store]) alice = []"
proof -
  have ne: "msg_sender env_alice \<noteq> address_this env_alice"
    by (simp add: env_alice_def users_differ)
  have e: "userMessages deployed (msg_sender env_alice) = []" by (simp add: deployed_def)
  from store_reverts_for_external_caller
    [OF ne, of deployed "[0x48, 0x69]" "[tx_bob_response, tx_alice_store]"] e
  show ?thesis using ne by (simp add: env_alice_def)
qed

subsection \<open>Appending\<close>









text \<open>
  Where a store does succeed (the caller's list was not empty before), the record still
  goes to the list of \<open>address(this)\<close>, and the caller's list is as it was.
\<close>

lemma store_goes_to_contract_list:
  assumes "storeMessage env s content = Inr (s', evs)" and "msg_sender env \<noteq> address_this env"
  shows "userMessages s' (msg_sender env) = userMessages s (msg_sender env)"
proof -
  from assms(1) store_success [of env s content s' evs] obtain m
    where "s' = push s (address_this env) m" by auto
  with assms(2) show ?thesis by (simp add: push_other)
qed

subsection \<open>Length checks\<close>

text \<open>
  C3. \<open>storeMessage\<close> and \<open>storeResponse\<close> revert with "Empty message" on an empty payload
  and with "Message too large" on a payload of more than 16384 bytes; a payload of 1 to
  16384 bytes fails neither \<open>require\<close>.
\<close>

theorem store_length_checks:
  "(length content = 0 \<longrightarrow>
      storeMessage env s content = Inl (Require ''Empty message'') \<and>
      storeResponse env s content = Inl (Require ''Empty message'')) \<and>
   (16384 < length content \<longrightarrow>
      storeMessage env s content = Inl (Require ''Message too large'') \<and>
      storeResponse env s content = Inl (Require ''Message too large'')) \<and>
   (1 \<le> length content \<and> length content \<le> 16384 \<longrightarrow>
      (\<forall>reason. storeMessage env s content \<noteq> Inl (Require reason)) \<and>
      (\<forall>reason. storeResponse env s content \<noteq> Inl (Require reason)))"
  by (auto simp: storeMessage_def storeResponse_def Let_def)

theorem store_length_checks_witness:
  "storeMessage env_alice deployed [] = Inl (Require ''Empty message'') \<and>
   storeResponse env_alice deployed [] = Inl (Require ''Empty message'') \<and>
   storeMessage env_alice deployed (replicate 16385 0) = Inl (Require ''Message too large'') \<and>
   storeResponse env_alice deployed (replicate 16385 0) = Inl (Require ''Message too large'') \<and>
   storeMessage env_alice one_message (replicate 16384 0) \<noteq> Inl (Require ''Message too large'') \<and>
   storeResponse env_alice one_message [0x48] \<noteq> Inl (Require ''Empty message'')"
  using store_length_checks [of "[]" env_alice deployed]
    store_length_checks [of "replicate 16385 0" env_alice deployed]
    store_length_checks [of "replicate 16384 0" env_alice one_message]
    store_length_checks [of "[0x48]" env_alice one_message]
  by simp

subsection \<open>Indexed reads\<close>

text \<open>
  C4. For every user and index, \<open>getMessageMetadata\<close>, \<open>getEncryptedContent\<close> and
  \<open>getMessage\<close> revert exactly when the index is at least the user's message count; for an
  index below the count they return the fields of the record stored at that index.
\<close>

theorem index_reads:
  "(isl (getMessageMetadata s user index) \<longleftrightarrow> getMessageCount s user \<le> unat index) \<and>
   (isl (getEncryptedContent s user index) \<longleftrightarrow> getMessageCount s user \<le> unat index) \<and>
   (isl (getMessage s user index) \<longleftrightarrow> getMessageCount s user \<le> unat index) \<and>
   (unat index < getMessageCount s user \<longrightarrow>
      (let m = getAllMessages s user ! unat index in
         getMessageMetadata s user index = Inr (sender m, timestamp m, isResponse m) \<and>
         getEncryptedContent s user index = Inr (encryptedContent m) \<and>
         getMessage s user index = Inr (sender m, encryptedContent m, timestamp m, isResponse m)))"
  by (auto simp: getMessageMetadata_def getEncryptedContent_def getMessage_def
      getMessageCount_def getAllMessages_def Let_def)

theorem index_reads_witness:
  "isl (getMessageMetadata deployed alice 0) \<and>
   getMessageCount one_message alice = 1 \<and>
   getMessage one_message alice 0 = Inr (alice, [0x48, 0x69], 1700000000, False) \<and>
   getMessageMetadata one_message alice 0 = Inr (alice, 1700000000, False) \<and>
   isl (getEncryptedContent one_message alice 1)"
  using index_reads [of deployed alice 0] index_reads [of one_message alice 0]
    index_reads [of one_message alice 1]
  by (simp add: getMessageCount_def getAllMessages_def deployed_def push_def one_message_def
      hello_def Let_def)

subsection \<open>Clearing\<close>

text \<open>
  C5. In every state and for every caller A, \<open>clearMessages()\<close> succeeds, leaves A's list
  empty (\<open>getMessageCount(A)\<close> is 0) and leaves the list of every other address as it was.
\<close>

theorem clearMessages_frame:
  "\<exists>s' evs. clearMessages env s = Inr (s', evs) \<and>
     getMessageCount s' (msg_sender env) = 0 \<and>
     userMessages s' (msg_sender env) = [] \<and>
     (\<forall>other. other \<noteq> msg_sender env \<longrightarrow> userMessages s' other = userMessages s other)"
  by (simp add: clearMessages_def getMessageCount_def)

theorem clearMessages_frame_witness:
  "getMessageCount two_users alice = 1 \<and>
   (\<exists>s' evs. clearMessages env_alice two_users = Inr (s', evs) \<and>
      getMessageCount s' alice = 0 \<and>
      userMessages s' bob = userMessages two_users bob \<and>
      length (userMessages s' bob) = 1)"
proof -
  have ne: "bob \<noteq> alice" by (simp add: users_differ)
  have a: "getMessageCount two_users alice = 1"
    by (simp add: two_users_def one_message_def getMessageCount_def push_def deployed_def
        users_differ)
  have b: "length (userMessages two_users bob) = 1"
    by (simp add: two_users_def one_message_def push_def deployed_def users_differ)
  from clearMessages_frame [of env_alice two_users] obtain s' evs where
    "clearMessages env_alice two_users = Inr (s', evs)"
    "getMessageCount s' (msg_sender env_alice) = 0"
    "\<forall>other. other \<noteq> msg_sender env_alice \<longrightarrow> userMessages s' other = userMessages two_users other"
    by blast
  with ne a b show ?thesis by (auto simp: env_alice_def)
qed

subsection \<open>Decryption requests\<close>

text \<open>
  C6. \<open>requestDecryption()\<close> never reverts, for any caller in any state; it returns the
  storage it was given, so the list of every address is unchanged, and emits one
  \<open>DecryptionRequested\<close> event.
\<close>

theorem requestDecryption_noop:
  "requestDecryption env s =
     Inr (s, [DecryptionRequested (msg_sender env) (block_timestamp env)]) \<and>
   \<not> isl (requestDecryption env s) \<and>
   transact this s \<lparr>tx_from = a, tx_time = t, tx_call = RequestDecryption\<rparr> = s"
  by (simp add: requestDecryption_def transact_def)

subsection \<open>The label field\<close>

lemma exec_labels_blank:
  assumes "labels_blank s" and "exec env s c = Inr (s', evs)"
  shows "labels_blank s'"
proof (cases c)
  case (StoreMessage content)
  with assms(2) store_success [of env s content s' evs] obtain m
    where "label m = ''''" "s' = push s (address_this env) m" by auto
  with assms(1) show ?thesis by (auto simp: labels_blank_def push_def)
next
  case (StoreResponse content)
  with assms(2) store_success [of env s content s' evs] obtain m
    where "label m = ''''" "s' = push s (address_this env) m" by auto
  with assms(1) show ?thesis by (auto simp: labels_blank_def push_def)
next
  case ClearMessages
  with assms show ?thesis by (auto simp: clearMessages_def labels_blank_def split: if_splits)
next
  case RequestDecryption
  with assms show ?thesis by (auto simp: requestDecryption_def)
qed

lemma transact_labels_blank:
  assumes "labels_blank s"
  shows "labels_blank (transact this s t)"
proof -
  let ?env = "\<lparr>msg_sender = tx_from t, address_this = this, block_timestamp = tx_time t\<rparr>"
  show ?thesis
  proof (cases "exec ?env s (tx_call t)")
    case (Inl e)
    with assms show ?thesis by (simp add: transact_def)
  next
    case (Inr r)
    obtain s' evs where r: "r = (s', evs)" by (cases r)
    from Inr r have "exec ?env s (tx_call t) = Inr (s', evs)" by simp
    with assms have "labels_blank s'" by (rule exec_labels_blank)
    with Inr r show ?thesis by (simp add: transact_def)
  qed
qed

lemma run_labels_blank: "labels_blank s \<Longrightarrow> labels_blank (run this s ts)"
  unfolding run_def
  by (induction ts arbitrary: s) (simp_all add: transact_labels_blank)

lemma run_self_store:
  "userMessages (run vault_address deployed [tx_alice_store, tx_self_store]) vault_address =
     [\<lparr>label = '''', sender = vault_address, encryptedContent = [0x21],
       timestamp = 1700000002, isResponse = False\<rparr>]"
  by (simp add: run_def transact_def tx_alice_store_def tx_self_store_def storeMessage_def
      push_def deployed_def alice_def vault_address_def Let_def)

lemma store_after_first:
  "storeResponse env_alice one_message [0x21] =
     Inr (push one_message vault_address
            \<lparr>label = '''', sender = vault_address, encryptedContent = [0x21],
             timestamp = 1700000000, isResponse = True\<rparr>,
          [MessageStored alice 0 1700000000 True 1])"
  by (simp add: storeResponse_def env_alice_def one_message_def push_def deployed_def
      users_differ Let_def)

text \<open>
  C10. Every record that \<open>storeMessage\<close> or \<open>storeResponse\<close> appends has the empty string
  as its label, and so has every record of every list after any run of transactions on a
  fresh deployment: the label carries no information in any reachable state.
\<close>

theorem label_always_empty:
  "((storeMessage env s content = Inr (s', evs) \<or> storeResponse env s content = Inr (s', evs)) \<longrightarrow>
      (\<exists>m. label m = '''' \<and> s' = push s (address_this env) m)) \<and>
   (\<forall>m \<in> set (getAllMessages (run this deployed ts) user). label m = '''')"
proof (intro conjI impI ballI)
  assume "storeMessage env s content = Inr (s', evs) \<or> storeResponse env s content = Inr (s', evs)"
  from store_success [OF this] show "\<exists>m. label m = '''' \<and> s' = push s (address_this env) m"
    by blast
next
  fix m assume "m \<in> set (getAllMessages (run this deployed ts) user)"
  moreover have "labels_blank deployed" by (simp add: labels_blank_def deployed_def)
  ultimately show "label m = ''''"
    using run_labels_blank [of deployed this ts] by (auto simp: labels_blank_def getAllMessages_def)
qed

theorem label_always_empty_witness:
  "(\<exists>s' evs. storeResponse env_alice one_message [0x21] = Inr (s', evs) \<and>
      (\<exists>m. label m = '''' \<and> s' = push one_message (address_this env_alice) m)) \<and>
   getAllMessages (run vault_address deployed [tx_alice_store, tx_self_store]) vault_address \<noteq> [] \<and>
   map label (getAllMessages (run vault_address deployed [tx_alice_store, tx_self_store])
        vault_address) = ['''']"
proof -
  let ?s' = "push one_message vault_address
            \<lparr>label = '''', sender = vault_address, encryptedContent = [0x21],
             timestamp = 1700000000, isResponse = True\<rparr>"
  let ?evs = "[MessageStored alice 0 1700000000 True 1]"
  let ?all = "getAllMessages (run vault_address deployed [tx_alice_store, tx_self_store])
        vault_address"
  note inst = label_always_empty [of env_alice one_message "[0x21]" ?s' ?evs
      vault_address "[tx_alice_store, tx_self_store]" vault_address]
  from inst store_after_first
  have "\<exists>m. label m = '''' \<and> ?s' = push one_message (address_this env_alice) m" by blast
  with store_after_first
  have first: "\<exists>s' evs. storeResponse env_alice one_message [0x21] = Inr (s', evs) \<and>
      (\<exists>m. label m = '''' \<and> s' = push one_message (address_this env_alice) m)" by blast
  from run_self_store have len: "length ?all = 1" by (simp add: getAllMessages_def)
  then have ne: "?all \<noteq> []" by auto
  from len obtain m where m: "?all = [m]" by (cases ?all) auto
  with inst have "label m = ''''" by simp
  with m have "map label ?all = ['''']" by simp
  with first ne show ?thesis by blast
qed

section \<open>Properties of the contract adapter\<close>

subsection \<open>Decrypting all messages\<close>

lemma decrypt_body_throws_alike:
  "isl (decrypt_body dt getContract password msgs) =
     isl (decrypt_body dt' getContract password msgs) \<and>
   (isl (decrypt_body dt getContract password msgs) \<longrightarrow>
      decrypt_body dt' getContract password msgs =
        decrypt_body dt getContract password msgs)"
  by (simp add: decrypt_body_def split: sum.splits option.splits)

lemma decrypt_body_maps:
  assumes "msgs \<noteq> []" and "getContract = Inr c"
  shows "decrypt_body dt getContract password msgs =
           Inr (map (decrypt_one dt password) msgs)"
  using assms by (simp add: decrypt_body_def split: sum.splits option.splits)

lemma decryptAllMessages_thrown:
  "snd (decryptAllMessages dt getContract password h) =
     (case decrypt_body dt getContract password (messages h) of
        Inl err \<Rightarrow> Some err | Inr ms \<Rightarrow> None)"
  by (simp add: decryptAllMessages_def Let_def split: sum.splits)

text \<open>
  C7. In \<open>decryptAllMessages\<close> a decryption failure stays with its message. What the
  operation throws, if anything, is the same whatever \<open>decryptText\<close> does. With a
  non-empty list and a \<open>getContract\<close> that does not throw, the operation throws nothing
  and sets a list of the same length in which each message keeps its fields and gets
  \<open>decryptedText\<close>: the failure text where its payload fails to decrypt, the plaintext
  where it decrypts.
\<close>

theorem decryptAllMessages_isolates_failures:
  "snd (decryptAllMessages dt getContract password h) =
     snd (decryptAllMessages dt' getContract password h) \<and>
   (messages h \<noteq> [] \<and> \<not> isl getContract \<longrightarrow>
      snd (decryptAllMessages dt getContract password h) = None \<and>
      length (messages (fst (decryptAllMessages dt getContract password h))) =
        length (messages h) \<and>
      (\<forall>i < length (messages h).
         messages (fst (decryptAllMessages dt getContract password h)) ! i =
           (case dt (m_encryptedContent (messages h ! i)) password of
              Inl err \<Rightarrow> (messages h ! i)\<lparr>m_decryptedText := Some ''[Decryption failed]''\<rparr>
            | Inr plain \<Rightarrow> (messages h ! i)\<lparr>m_decryptedText := Some plain\<rparr>)))"
proof (intro conjI impI)
  show "snd (decryptAllMessages dt getContract password h) =
          snd (decryptAllMessages dt' getContract password h)"
    using decrypt_body_throws_alike [of dt getContract password "messages h" dt']
    by (auto simp: decryptAllMessages_thrown split: sum.splits)
next
  assume a: "messages h \<noteq> [] \<and> \<not> isl getContract"
  then obtain c where c: "getContract = Inr c" by (cases getContract) auto
  with a have body: "decrypt_body dt getContract password (messages h) =
      Inr (map (decrypt_one dt password) (messages h))"
    by (simp add: decrypt_body_maps)
  then have set: "messages (fst (decryptAllMessages dt getContract password h)) =
      map (decrypt_one dt password) (messages h)"
    by (simp add: decryptAllMessages_def Let_def)
  from body show "snd (decryptAllMessages dt getContract password h) = None"
    by (simp add: decryptAllMessages_thrown)
  from set show "length (messages (fst (decryptAllMessages dt getContract password h))) =
      length (messages h)"
    by simp
  from set show "\<forall>i < length (messages h).
         messages (fst (decryptAllMessages dt getContract password h)) ! i =
           (case dt (m_encryptedContent (messages h ! i)) password of
              Inl err \<Rightarrow> (messages h ! i)\<lparr>m_decryptedText := Some ''[Decryption failed]''\<rparr>
            | Inr plain \<Rightarrow> (messages h ! i)\<lparr>m_decryptedText := Some plain\<rparr>)"
    by (simp add: decrypt_one_def)
qed

theorem decryptAllMessages_isolates_failures_witness:
  "messages chat_hook \<noteq> [] \<and>
   isl (prefix_decryptor (m_encryptedContent sealed_bad) ''pw:'') \<and>
   snd (decryptAllMessages prefix_decryptor (Inr None) ''pw:'' chat_hook) = None \<and>
   messages (fst (decryptAllMessages prefix_decryptor (Inr None) ''pw:'' chat_hook)) ! 0 =
     sealed_ok\<lparr>m_decryptedText := Some ''hello''\<rparr> \<and>
   messages (fst (decryptAllMessages prefix_decryptor (Inr None) ''pw:'' chat_hook)) ! 1 =
     sealed_bad\<lparr>m_decryptedText := Some ''[Decryption failed]''\<rparr>"
proof -
  have ne: "messages chat_hook \<noteq> [] \<and> \<not> isl (Inr None :: Contract option outcome)"
    by (simp add: chat_hook_def)
  have len: "length (messages chat_hook) = 2" by (simp add: chat_hook_def)
  have bad: "prefix_decryptor (m_encryptedContent sealed_bad) ''pw:'' = Inl (Error ''OperationError'')"
    by (simp add: prefix_decryptor_def sealed_bad_def)
  have ok: "prefix_decryptor (m_encryptedContent sealed_ok) ''pw:'' = Inr ''hello''"
    by (simp add: prefix_decryptor_def sealed_ok_def)
  note inst = decryptAllMessages_isolates_failures
    [of prefix_decryptor "Inr None" "''pw:''" chat_hook prefix_decryptor]
  from inst ne have none: "snd (decryptAllMessages prefix_decryptor (Inr None) ''pw:'' chat_hook) = None"
    by blast
  from inst ne have each: "\<forall>i < length (messages chat_hook).
         messages (fst (decryptAllMessages prefix_decryptor (Inr None) ''pw:'' chat_hook)) ! i =
           (case prefix_decryptor (m_encryptedContent (messages chat_hook ! i)) ''pw:'' of
              Inl err \<Rightarrow> (messages chat_hook ! i)\<lparr>m_decryptedText := Some ''[Decryption failed]''\<rparr>
            | Inr plain \<Rightarrow> (messages chat_hook ! i)\<lparr>m_decryptedText := Some plain\<rparr>)"
    by blast
  have "(0::nat) < length (messages chat_hook)" using len by simp
  with each have "messages (fst (decryptAllMessages prefix_decryptor (Inr None) ''pw:'' chat_hook)) ! 0 =
           (case prefix_decryptor (m_encryptedContent (messages chat_hook ! 0)) ''pw:'' of
              Inl err \<Rightarrow> (messages chat_hook ! 0)\<lparr>m_decryptedText := Some ''[Decryption failed]''\<rparr>
            | Inr plain \<Rightarrow> (messages chat_hook ! 0)\<lparr>m_decryptedText := Some plain\<rparr>)"
    by blast
  with ok have first:
    "messages (fst (decryptAllMessages prefix_decryptor (Inr None) ''pw:'' chat_hook)) ! 0 =
       sealed_ok\<lparr>m_decryptedText := Some ''hello''\<rparr>"
    by (simp add: chat_hook_def)
  have "(1::nat) < length (messages chat_hook)" using len by simp
  with each have "messages (fst (decryptAllMessages prefix_decryptor (Inr None) ''pw:'' chat_hook)) ! 1 =
           (case prefix_decryptor (m_encryptedContent (messages chat_hook ! 1)) ''pw:'' of
              Inl err \<Rightarrow> (messages chat_hook ! 1)\<lparr>m_decryptedText := Some ''[Decryption failed]''\<rparr>
            | Inr plain \<Rightarrow> (messages chat_hook ! 1)\<lparr>m_decryptedText := Some plain\<rparr>)"
    by blast
  with bad have second:
    "messages (fst (decryptAllMessages prefix_decryptor (Inr None) ''pw:'' chat_hook)) ! 1 =
       sealed_bad\<lparr>m_decryptedText := Some ''[Decryption failed]''\<rparr>"
    by (simp add: chat_hook_def)
  from ne bad none first second show ?thesis by simp
qed

subsection \<open>Loading the cached list\<close>

lemma truthy_item_Some:
  "localStorage h k = Some stored \<Longrightarrow> stored \<noteq> [] \<Longrightarrow> truthy_item h k = Some stored"
  by (simp add: truthy_item_def)

lemma load_demo_malformed:
  assumes "localStorage h (storage_key a) = Some stored" and "stored \<noteq> []"
    and "JSON_parse stored = Inl parseErr"
  shows "messages (load_demo JSON_parse a h) = []"
    and "localStorage (load_demo JSON_parse a h) (storage_key a) = None"
  using assms by (simp_all add: load_demo_def truthy_item_Some)

lemma load_fallback_storage:
  "localStorage (load_fallback JSON_parse a err h) = localStorage h"
  by (simp add: load_fallback_def truthy_item_def Let_def split: option.splits sum.splits)

lemma load_fallback_malformed:
  assumes "localStorage h (storage_key a) = Some stored" and "stored \<noteq> []"
    and "JSON_parse stored = Inl parseErr"
  shows "messages (load_fallback JSON_parse a err h) = []"
  using assms by (simp add: load_fallback_def truthy_item_def Let_def)

text \<open>
  In the \<open>catch\<close> path the malformed entry stays in local storage: only the path without a
  contract calls \<open>removeItem\<close>.
\<close>

lemma loadMessages_fallback_keeps_entry:
  assumes "getContract = Inl err"
  shows "localStorage (fst (loadMessages JSON_parse Number getContract (Some a) h)) =
           localStorage h"
  using assms by (simp add: loadMessages_def Let_def load_fallback_storage)

text \<open>
  C8, as the claim states it: whenever \<open>loadMessages\<close> reads a cached value that is
  malformed JSON, the message list is set to the empty list. This fails for the empty
  string, which \<open>JSON.parse\<close> rejects: \<open>if (stored)\<close> skips it, so the list keeps what it
  held and the entry stays in local storage.
\<close>

theorem loadMessages_empty_cache_counterexample:
  "localStorage (cached_hook '''') (storage_key ''0xA11CE'') = Some '''' \<and>
   isl (parse_empty_array '''') \<and>
   messages (fst (loadMessages parse_empty_array int (Inr None) (Some ''0xA11CE'')
     (cached_hook ''''))) = [sealed_ok] \<and>
   messages (fst (loadMessages parse_empty_array int (Inr None) (Some ''0xA11CE'')
     (cached_hook ''''))) \<noteq> [] \<and>
   localStorage (fst (loadMessages parse_empty_array int (Inr None) (Some ''0xA11CE'')
     (cached_hook ''''))) (storage_key ''0xA11CE'') = Some ''''"
  by (simp add: loadMessages_def load_demo_def truthy_item_def cached_hook_def
      parse_empty_array_def Let_def)

text \<open>
  C8, amended: when \<open>loadMessages\<close> reads the cached list, and the cached value is a
  non-empty string that \<open>JSON.parse\<close> rejects, the message list is set to the empty list and
  \<open>loadMessages\<close> throws nothing; where there is no contract, the entry is also removed from
  local storage.
\<close>

theorem loadMessages_malformed_cache:
  assumes "localStorage h (storage_key a) = Some stored" and "stored \<noteq> []"
    and "JSON_parse stored = Inl parseErr" and "cache_is_read getContract a"
  shows "messages (fst (loadMessages JSON_parse Number getContract (Some a) h)) = [] \<and>
         snd (loadMessages JSON_parse Number getContract (Some a) h) = None \<and>
         (getContract = Inr None \<longrightarrow>
            localStorage (fst (loadMessages JSON_parse Number getContract (Some a) h))
              (storage_key a) = None)"
proof -
  let ?h0 = "h\<lparr>loading := True, error := None\<rparr>"
  have st: "localStorage ?h0 (storage_key a) = Some stored" using assms(1) by simp
  have demo: "messages (load_demo JSON_parse a ?h0) = []"
    "localStorage (load_demo JSON_parse a ?h0) (storage_key a) = None"
    using load_demo_malformed [where h = "?h0" and a = a and stored = stored
        and JSON_parse = JSON_parse and parseErr = parseErr] st assms(2,3)
    by simp_all
  have fb: "\<And>err. messages (load_fallback JSON_parse a err ?h0) = []"
    using load_fallback_malformed [where h = "?h0" and a = a and stored = stored
        and JSON_parse = JSON_parse and parseErr = parseErr] st assms(2,3)
    by simp
  have thrown: "snd (loadMessages JSON_parse Number getContract (Some a) h) = None"
    by (simp add: loadMessages_def Let_def)
  show ?thesis
  proof (cases getContract)
    case (Inl err)
    with fb thrown show ?thesis by (simp add: loadMessages_def Let_def)
  next
    case (Inr c)
    show ?thesis
    proof (cases c)
      case None
      with Inr demo thrown show ?thesis by (simp add: loadMessages_def Let_def)
    next
      case (Some contract)
      with Inr assms(4) obtain err where "call_getAllMessages contract a = Inl err"
        by (cases "call_getAllMessages contract a") (auto simp: cache_is_read_def)
      with Inr Some fb thrown show ?thesis by (simp add: loadMessages_def Let_def)
    qed
  qed
qed

theorem loadMessages_malformed_cache_witness:
  "localStorage (cached_hook ''{oops'') (storage_key ''0xA11CE'') = Some ''{oops'' \<and>
   parse_empty_array ''{oops'' = Inl (Error ''SyntaxError'') \<and>
   messages (cached_hook ''{oops'') = [sealed_ok] \<and>
   messages (fst (loadMessages parse_empty_array int (Inr None) (Some ''0xA11CE'')
     (cached_hook ''{oops''))) = [] \<and>
   localStorage (fst (loadMessages parse_empty_array int (Inr None) (Some ''0xA11CE'')
     (cached_hook ''{oops''))) (storage_key ''0xA11CE'') = None \<and>
   messages (fst (loadMessages parse_empty_array int (Inl (Error ''CALL_EXCEPTION''))
     (Some ''0xA11CE'') (cached_hook ''{oops''))) = [] \<and>
   snd (loadMessages parse_empty_array int (Inl (Error ''CALL_EXCEPTION''))
     (Some ''0xA11CE'') (cached_hook ''{oops'')) = None"
proof -
  have st: "localStorage (cached_hook ''{oops'') (storage_key ''0xA11CE'') = Some ''{oops''"
    by (simp add: cached_hook_def)
  have ne: "''{oops'' \<noteq> []" by simp
  have bad: "parse_empty_array ''{oops'' = Inl (Error ''SyntaxError'')"
    by (simp add: parse_empty_array_def)
  have r1: "cache_is_read (Inr None) ''0xA11CE''" by (simp add: cache_is_read_def)
  have r2: "cache_is_read (Inl (Error ''CALL_EXCEPTION'')) ''0xA11CE''"
    by (simp add: cache_is_read_def)
  have m: "messages (cached_hook ''{oops'') = [sealed_ok]" by (simp add: cached_hook_def)
  note demo = loadMessages_malformed_cache
    [where h = "cached_hook ''{oops''" and a = "''0xA11CE''" and stored = "''{oops''"
      and JSON_parse = parse_empty_array and parseErr = "Error ''SyntaxError''"
      and getContract = "Inr None" and Number = int]
  note fallback = loadMessages_malformed_cache
    [where h = "cached_hook ''{oops''" and a = "''0xA11CE''" and stored = "''{oops''"
      and JSON_parse = parse_empty_array and parseErr = "Error ''SyntaxError''"
      and getContract = "Inl (Error ''CALL_EXCEPTION'')" and Number = int]
  from demo [OF st ne bad r1] fallback [OF st ne bad r2] st bad m
  show ?thesis by simp
qed

section \<open>Properties of the client codec\<close>

lemma toy_crypto_inverts:
  "unseal toy_crypto key iv (seal toy_crypto key iv plaintext) = Some plaintext"
  by (simp add: toy_crypto_def)

text \<open>
  C9. For every plaintext p and password k, decrypting with k the result of encrypting p
  under k gives exactly p. The cipher is the platform's: the statement holds for every key
  derivation and every cipher whose decryption inverts its encryption under the same key
  and initialization vector, and for every salt and initialization vector of the fixed
  lengths.
\<close>

theorem codec_round_trip:
  assumes "\<And>key iv plaintext. unseal c key iv (seal c key iv plaintext) = Some plaintext"
    and "length salt = salt_length c" and "length iv = iv_length c"
  shows "decryptText c (encryptText c salt iv p k) k = Some p"
proof -
  let ?ct = "seal c (derive_key c k salt) iv p"
  let ?payload = "salt @ iv @ ?ct"
  have s: "take (salt_length c) ?payload = salt" using assms(2) by simp
  have i: "take (iv_length c) (drop (salt_length c) ?payload) = iv" using assms(2,3) by simp
  have t: "drop (salt_length c + iv_length c) ?payload = ?ct" using assms(2,3) by simp
  have l: "\<not> length ?payload < salt_length c + iv_length c" using assms(2,3) by simp
  have "decryptText c ?payload k = unseal c (derive_key c k salt) iv ?ct"
    unfolding decryptText_def Let_def using s i t l by (simp only: if_False)
  also have "\<dots> = Some p" by (rule assms(1))
  finally show ?thesis by (simp add: encryptText_def)
qed

theorem codec_round_trip_witness:
  "length ''s1'' = salt_length toy_crypto \<and> length ''iv0'' = iv_length toy_crypto \<and>
   encryptText toy_crypto ''s1'' ''iv0'' ''hello'' ''pw'' = ''s1iv0pws1iv0hello'' \<and>
   decryptText toy_crypto ''s1iv0pws1iv0hello'' ''pw'' = Some ''hello''"
proof -
  have a: "length ''s1'' = salt_length toy_crypto" by (simp add: toy_crypto_def)
  have b: "length ''iv0'' = iv_length toy_crypto" by (simp add: toy_crypto_def)
  have e: "encryptText toy_crypto ''s1'' ''iv0'' ''hello'' ''pw'' = ''s1iv0pws1iv0hello''"
    by (simp add: encryptText_def toy_crypto_def)
  from codec_round_trip [of toy_crypto, OF toy_crypto_inverts a b, of "''hello''" "''pw''"] e
  have "decryptText toy_crypto ''s1iv0pws1iv0hello'' ''pw'' = Some ''hello''" by simp
  with a b e show ?thesis by simp
qed

end
